theory Spec2Isabelle
  imports Complex_Main "HOL-Library.Sublist" "HOL-Library.Char_ord" "HOL-Library.List_Lexorder"
    "HOL-Library.Multiset"
begin

section \<open>Python string primitives used by the column classifier\<close>

text \<open>
  Headers are modelled as ASCII strings (\<open>char list\<close>). The Python methods \<open>upper\<close>,
  \<open>strip\<close>, \<open>replace\<close>, \<open>title\<close>, \<open>split\<close>, the operator \<open>in\<close> and the regular
  expression \<open>\bPR\b\<close> are written out on that alphabet: letters are \<open>a..z\<close> and
  \<open>A..Z\<close>, word characters are letters, digits and the underscore, white space is
  the ASCII white space Python strips (codes 9 to 13 and 28 to 32).
\<close>

definition is_lower :: "char \<Rightarrow> bool" where
  "is_lower c = (CHR ''a'' \<le> c \<and> c \<le> CHR ''z'')"

definition is_upper :: "char \<Rightarrow> bool" where
  "is_upper c = (CHR ''A'' \<le> c \<and> c \<le> CHR ''Z'')"

definition is_digit :: "char \<Rightarrow> bool" where
  "is_digit c = (CHR ''0'' \<le> c \<and> c \<le> CHR ''9'')"

definition is_alpha :: "char \<Rightarrow> bool" where
  "is_alpha c = (is_lower c \<or> is_upper c)"

definition is_word_char :: "char \<Rightarrow> bool" where
  "is_word_char c = (is_alpha c \<or> is_digit c \<or> c = CHR ''_'')"

definition is_space :: "char \<Rightarrow> bool" where
  "is_space c = ((9 \<le> (of_char c :: nat) \<and> (of_char c :: nat) \<le> 13)
                 \<or> (28 \<le> (of_char c :: nat) \<and> (of_char c :: nat) \<le> 32))"

definition to_upper :: "char \<Rightarrow> char" where
  "to_upper c = (if is_lower c then char_of ((of_char c :: nat) - 32) else c)"

definition to_lower :: "char \<Rightarrow> char" where
  "to_lower c = (if is_upper c then char_of ((of_char c :: nat) + 32) else c)"

text \<open>\<open>s.upper()\<close>\<close>

definition upper :: "string \<Rightarrow> string" where
  "upper s = map to_upper s"

text \<open>\<open>sub in s\<close>\<close>

fun str_contains :: "string \<Rightarrow> string \<Rightarrow> bool" where
  "str_contains sub [] = (sub = [])"
| "str_contains sub (c # cs) = (prefix sub (c # cs) \<or> str_contains sub cs)"

text \<open>\<open>s.strip()\<close>\<close>

definition strip :: "string \<Rightarrow> string" where
  "strip s = rev (dropWhile is_space (rev (dropWhile is_space s)))"

text \<open>\<open>s.replace('_', ' ')\<close>\<close>

definition replace_underscore :: "string \<Rightarrow> string" where
  "replace_underscore s = map (\<lambda>c. if c = CHR ''_'' then CHR '' '' else c) s"

text \<open>
  \<open>s.title()\<close>: a letter that follows a letter is lowercased, any other letter is
  uppercased; the flag is whether the previous character was a letter.
\<close>

fun title_from :: "bool \<Rightarrow> string \<Rightarrow> string" where
  "title_from prev [] = []"
| "title_from prev (c # cs) =
     (if is_lower c then (if prev then c else to_upper c)
      else if is_upper c then (if prev then to_lower c else c)
      else c) # title_from (is_alpha c) cs"

definition title :: "string \<Rightarrow> string" where
  "title s = title_from False s"

text \<open>
  \<open>s.split(sep)\<close> for a non-empty separator: the pieces between the occurrences of
  \<open>sep\<close>, found from the left without overlap. \<open>acc\<close> holds the current piece reversed.
  (Python raises \<open>ValueError\<close> on an empty separator; every call of the source passes
  a non-empty literal.)
\<close>

function py_split :: "string \<Rightarrow> string \<Rightarrow> string \<Rightarrow> string list" where
  "py_split sep acc [] = [rev acc]"
| "py_split sep acc (c # cs) =
     (if sep \<noteq> [] \<and> prefix sep (c # cs)
      then rev acc # py_split sep [] (drop (length sep) (c # cs))
      else py_split sep (c # acc) cs)"
  by pat_completeness auto
termination
  by (relation "measure (\<lambda>(sep, acc, s). length s)") (auto simp: neq_Nil_conv)

definition str_split :: "string \<Rightarrow> string \<Rightarrow> string list" where
  "str_split s sep = py_split sep [] s"

text \<open>
  \<open>re.search(r'\bPR\b', s) is not None\<close>: some occurrence of \<open>PR\<close> has no word
  character directly before it and none directly after it. \<open>prev\<close> tells whether the
  character before the current position is a word character.
\<close>

fun search_word_from :: "string \<Rightarrow> bool \<Rightarrow> string \<Rightarrow> bool" where
  "search_word_from w prev [] = False"
| "search_word_from w prev (c # cs) =
     ((\<not> prev \<and> prefix w (c # cs)
        \<and> (case drop (length w) (c # cs) of [] \<Rightarrow> True | d # _ \<Rightarrow> \<not> is_word_char d))
      \<or> search_word_from w (is_word_char c) cs)"

definition search_PR_token :: "string \<Rightarrow> bool" where
  "search_PR_token s = search_word_from ''PR'' False s"

section \<open>Cells, rows and tables\<close>

text \<open>
  A cell is classified by what \<open>float\<close> and \<open>pd.notna\<close> make of it: \<open>Num r\<close> is a
  value that \<open>float\<close> converts to the number \<open>r\<close>; \<open>Blank\<close> is a missing value
  (\<open>None\<close>, \<open>NaN\<close>), for which \<open>pd.notna\<close> is false; \<open>Junk\<close> is any other value that
  \<open>float\<close> rejects with \<open>ValueError\<close> or \<open>TypeError\<close>. Marks are real numbers; the
  rounding of floating-point arithmetic and the values \<open>inf\<close> and \<open>nan\<close> that \<open>float\<close>
  reads from text are not modelled.
\<close>

datatype cell = Num real | Blank | Junk

text \<open>
  A pandas \<open>Series\<close> read with \<open>row.get(c, np.nan)\<close> is a map from headers to cells.
  A \<open>DataFrame\<close> is its list of headers (pairwise distinct, as pandas delivers them)
  and its rows in order; \<open>row[col]\<close> for a header of the frame is always defined, so a
  row of a frame is a function on headers.
\<close>

type_synonym series = "string \<rightharpoonup> cell"

record dataframe =
  columns :: "string list"
  iterrows :: "(string \<Rightarrow> cell) list"

datatype py_error = ValueError

section \<open>app.py: practical columns\<close>

text \<open>\<open>_is_practical_col(col_name)\<close> on a header string; the empty string is falsy.\<close>

definition is_practical_col :: "string \<Rightarrow> bool" where
  "is_practical_col col_name =
     (if col_name = [] then False
      else let col_upper = upper col_name in
        if str_contains ''TW'' col_upper \<and> \<not> str_contains ''PR'' col_upper then False
        else str_contains ''PRACTICAL'' col_upper \<or> search_PR_token col_upper)"

section \<open>app.py: percentage of a row\<close>

text \<open>
  \<open>_row_percentage(row, cols)\<close>. The helper \<open>extract_max_marks_from_header\<close> is
  imported from a module that is not part of the sources at hand, so it is the
  parameter \<open>extract_max_marks_from_header\<close> of the model. The loop state is the pair
  \<open>(obtained_total, max_total)\<close>; the result \<open>None\<close> stands for \<open>np.nan\<close>.
\<close>

definition series_get :: "series \<Rightarrow> string \<Rightarrow> cell" where
  "series_get row c = (case row c of None \<Rightarrow> Blank | Some v \<Rightarrow> v)"

text \<open>
  \<open>float(val)\<close> inside \<open>try\<close>, with \<open>np.nan\<close> on an exception; \<open>None\<close> is the
  value for which \<open>pd.notna\<close> is false afterwards.
\<close>

definition to_float :: "cell \<Rightarrow> real option" where
  "to_float v = (case v of Num r \<Rightarrow> Some r | Blank \<Rightarrow> None | Junk \<Rightarrow> None)"

fun row_percentage_loop ::
  "(string \<Rightarrow> real) \<Rightarrow> series \<Rightarrow> string list \<Rightarrow> real \<times> real \<Rightarrow> real \<times> real" where
  "row_percentage_loop extract_max_marks_from_header row [] (obtained_total, max_total) =
     (obtained_total, max_total)"
| "row_percentage_loop extract_max_marks_from_header row (c # cols) (obtained_total, max_total) =
     (case to_float (series_get row c) of
        None \<Rightarrow> row_percentage_loop extract_max_marks_from_header row cols
                  (obtained_total, max_total)
      | Some val \<Rightarrow> row_percentage_loop extract_max_marks_from_header row cols
                  (obtained_total + val, max_total + extract_max_marks_from_header c))"

definition row_percentage :: "(string \<Rightarrow> real) \<Rightarrow> series \<Rightarrow> string list \<Rightarrow> real option" where
  "row_percentage extract_max_marks_from_header row cols =
     (case row_percentage_loop extract_max_marks_from_header row cols (0, 0) of
        (obtained_total, max_total) \<Rightarrow>
          if max_total > 0 then Some ((obtained_total / max_total) * 100) else None)"

section \<open>app.py: maximum marks of an assessment type\<close>

text \<open>
  \<open>_get_max_marks_for_subject(subject_name, exam_type=None)\<close>. \<open>None\<close> and the empty
  string are falsy and take the default branch.
\<close>

definition get_max_marks_for_subject :: "string \<Rightarrow> string option \<Rightarrow> int" where
  "get_max_marks_for_subject subject_name exam_type =
     (case exam_type of
        None \<Rightarrow> 100
      | Some t \<Rightarrow>
          if t = [] then 100
          else let exam_upper = upper t in
            if str_contains ''ESE'' exam_upper then 60
            else if str_contains ''ISE'' exam_upper \<or> str_contains ''MSE'' exam_upper then 25
            else if str_contains ''PRACTICAL'' exam_upper \<or> str_contains ''PR'' exam_upper then 25
            else if str_contains ''TW'' exam_upper then 50
            else 100)"

section \<open>services/subjects.py: the list of subjects\<close>

definition exclude_cols :: "string list" where
  "exclude_cols = [''SR.No'', ''Roll No'', ''Name'', ''Academic_Performance_%'',
     ''Previous_Performance_Analysis'', ''Practical_%'', ''Coding_Expertise'',
     ''Performance_Analysis'', ''Category'']"

definition assessments :: "string list" where
  "assessments = [''ISE'', ''MSE'', ''ESE'', ''PRACTICAL'', ''TW'', ''PR'']"

text \<open>
  The inner loop of \<open>get_subject_list\<close> over the markers, left at the first marker
  found (\<open>break\<close>). Its value is \<open>parts[0].strip()\<close> when that is non-empty, the
  subject-name candidate before it is normalised.
\<close>

fun subject_candidate :: "string \<Rightarrow> string list \<Rightarrow> string option" where
  "subject_candidate col_str [] = None"
| "subject_candidate col_str (assessment # rest) =
     (if str_contains assessment (upper col_str)
      then (case str_split (upper col_str) assessment of
              [] \<Rightarrow> None
            | p # _ \<Rightarrow> (let subject_name = strip p in
                         if subject_name \<noteq> [] then Some subject_name else None))
      else subject_candidate col_str rest)"

text \<open>The outer loop: \<open>subjects.add(subject_name.replace('_', ' ').title())\<close>.\<close>

fun collect_subjects :: "string list \<Rightarrow> string set \<Rightarrow> string set" where
  "collect_subjects [] subjects = subjects"
| "collect_subjects (col # subject_cols) subjects =
     (case subject_candidate col assessments of
        None \<Rightarrow> collect_subjects subject_cols subjects
      | Some subject_name \<Rightarrow>
          collect_subjects subject_cols (insert (title (replace_underscore subject_name)) subjects))"

definition get_subject_list :: "dataframe \<Rightarrow> string list" where
  "get_subject_list df =
     (let subject_cols = filter (\<lambda>col. col \<notin> set exclude_cols) (columns df);
          subjects = collect_subjects subject_cols {}
      in sorted_list_of_set subjects)"

section \<open>services/subjects.py: marks of a subject\<close>

text \<open>The first loop of \<open>get_subject_marks\<close>: the MSE and ESE columns of the subject.\<close>

fun subject_cols_loop :: "string \<Rightarrow> string list \<Rightarrow> string list \<Rightarrow> string list" where
  "subject_cols_loop subject_name [] subject_cols = subject_cols"
| "subject_cols_loop subject_name (col # rest) subject_cols =
     (let col_upper = upper col; subject_upper = upper subject_name in
      if str_contains subject_upper col_upper
         \<and> (str_contains ''MSE'' col_upper \<or> str_contains ''ESE'' col_upper)
      then subject_cols_loop subject_name rest (subject_cols @ [col])
      else subject_cols_loop subject_name rest subject_cols)"

text \<open>
  The loop over the columns for one row: a missing cell adds \<open>0\<close>, a cell that
  \<open>float\<close> rejects raises and is skipped by \<open>continue\<close>.
\<close>

fun row_total :: "(string \<Rightarrow> cell) \<Rightarrow> string list \<Rightarrow> real \<Rightarrow> real" where
  "row_total row [] total_marks = total_marks"
| "row_total row (col # rest) total_marks =
     (case row col of
        Num r \<Rightarrow> row_total row rest (total_marks + r)
      | Blank \<Rightarrow> row_total row rest (total_marks + 0)
      | Junk \<Rightarrow> row_total row rest total_marks)"

fun marks_loop :: "(string \<Rightarrow> cell) list \<Rightarrow> string list \<Rightarrow> real list \<Rightarrow> real list" where
  "marks_loop [] subject_cols marks_data = marks_data"
| "marks_loop (row # rest) subject_cols marks_data =
     marks_loop rest subject_cols (marks_data @ [row_total row subject_cols 0])"

definition get_subject_marks :: "dataframe \<Rightarrow> string \<Rightarrow> real list option" where
  "get_subject_marks df subject_name =
     (let subject_cols = subject_cols_loop subject_name (columns df) [] in
      if subject_cols = [] then None
      else Some (marks_loop (iterrows df) subject_cols []))"

section \<open>services/subjects.py: summary statistics\<close>

text \<open>
  \<open>np.mean\<close>, \<open>np.max\<close>, \<open>np.min\<close> and \<open>np.std\<close> (population standard deviation,
  \<open>ddof = 0\<close>) on a non-empty list. On an empty list \<open>np.max\<close> raises \<open>ValueError\<close>.
\<close>

definition np_mean :: "real list \<Rightarrow> real" where
  "np_mean xs = sum_list xs / real (length xs)"

definition np_max :: "real list \<Rightarrow> py_error + real" where
  "np_max xs = (case xs of [] \<Rightarrow> Inl ValueError | x # rest \<Rightarrow> Inr (fold max rest x))"

definition np_min :: "real list \<Rightarrow> py_error + real" where
  "np_min xs = (case xs of [] \<Rightarrow> Inl ValueError | x # rest \<Rightarrow> Inr (fold min rest x))"

definition np_std :: "real list \<Rightarrow> real" where
  "np_std xs = sqrt (np_mean (map (\<lambda>x. \<bar>x - np_mean xs\<bar> ^ 2) xs))"

record summary =
  total_marks :: "real list"
  average_marks :: real
  max_marks :: real
  min_marks :: real
  std_marks :: real

definition get_subject_marks_summary :: "dataframe \<Rightarrow> string \<Rightarrow> py_error + summary option" where
  "get_subject_marks_summary df subject_name =
     (case get_subject_marks df subject_name of
        None \<Rightarrow> Inr None
      | Some marks_data \<Rightarrow>
          (case np_max marks_data of
             Inl e \<Rightarrow> Inl e
           | Inr mx \<Rightarrow>
               (case np_min marks_data of
                  Inl e \<Rightarrow> Inl e
                | Inr mn \<Rightarrow>
                    Inr (Some \<lparr>total_marks = marks_data,
                               average_marks = np_mean marks_data,
                               max_marks = mx,
                               min_marks = mn,
                               std_marks = np_std marks_data\<rparr>))))"

section \<open>Notions used to state the properties\<close>

text \<open>A cell is numeric when \<open>float\<close> accepts it; its value counts as zero otherwise.\<close>

definition is_numeric :: "cell \<Rightarrow> bool" where
  "is_numeric v = (case v of Num r \<Rightarrow> True | Blank \<Rightarrow> False | Junk \<Rightarrow> False)"

definition cell_value :: "cell \<Rightarrow> real" where
  "cell_value v = (case v of Num r \<Rightarrow> r | Blank \<Rightarrow> 0 | Junk \<Rightarrow> 0)"

text \<open>
  The table of the scenario of the specification: five headers and two rows.
  \<open>scenario_max\<close> is an instance of the parameter \<open>extract_max_marks_from_header\<close>
  with the maxima 25, 60 and 25 that the scenario states for its three mark columns.
\<close>

definition scenario_columns :: "string list" where
  "scenario_columns = [''SR.No'', ''Name'', ''MATHS MSE'', ''MATHS ESE'', ''DBMS PRACTICAL'']"

definition scenario_row1 :: "string \<Rightarrow> cell" where
  "scenario_row1 c =
     (if c = ''MATHS MSE'' then Num 20 else if c = ''MATHS ESE'' then Num 45
      else if c = ''DBMS PRACTICAL'' then Num 20 else Junk)"

definition scenario_row2 :: "string \<Rightarrow> cell" where
  "scenario_row2 c =
     (if c = ''MATHS MSE'' then Num 10 else if c = ''MATHS ESE'' then Num 30
      else if c = ''DBMS PRACTICAL'' then Num 15 else Junk)"

definition scenario_table :: dataframe where
  "scenario_table = \<lparr>columns = scenario_columns, iterrows = [scenario_row1, scenario_row2]\<rparr>"

definition scenario_max :: "string \<Rightarrow> real" where
  "scenario_max c =
     (if c = ''MATHS MSE'' then 25 else if c = ''MATHS ESE'' then 60
      else if c = ''DBMS PRACTICAL'' then 25 else 100)"

text \<open>The columns that \<open>get_subject_marks\<close> keeps for a subject.\<close>

definition is_exam_col :: "string \<Rightarrow> string \<Rightarrow> bool" where
  "is_exam_col subject_name col =
     (str_contains (upper subject_name) (upper col)
      \<and> (str_contains ''MSE'' (upper col) \<or> str_contains ''ESE'' (upper col)))"

text \<open>A table of three students whose MSE and ESE marks sum to 70, 40 and 85.\<close>

definition three_students :: dataframe where
  "three_students =
     \<lparr>columns = [''Roll No'', ''MATHS MSE'', ''MATHS ESE''],
      iterrows =
        [(\<lambda>c. if c = ''MATHS MSE'' then Num 20 else if c = ''MATHS ESE'' then Num 50 else Num 1),
         (\<lambda>c. if c = ''MATHS MSE'' then Num 10 else if c = ''MATHS ESE'' then Num 30 else Num 2),
         (\<lambda>c. if c = ''MATHS MSE'' then Num 25 else if c = ''MATHS ESE'' then Num 60 else Num 3)]\<rparr>"

text \<open>
  The subject that one column contributes: its candidate, with underscores turned
  into spaces and in title case.
\<close>

definition subject_of :: "string \<Rightarrow> string option" where
  "subject_of col = map_option (\<lambda>n. title (replace_underscore n)) (subject_candidate col assessments)"

text \<open>The order of the markers with \<open>ESE\<close> in front, for comparison.\<close>

definition ese_first_order :: "string list" where
  "ese_first_order = [''ESE'', ''ISE'', ''MSE'', ''PRACTICAL'', ''TW'', ''PR'']"

text \<open>The table of the scenario with its columns in another order.\<close>

definition scenario_permuted :: dataframe where
  "scenario_permuted =
     \<lparr>columns = [''DBMS PRACTICAL'', ''MATHS ESE'', ''Name'', ''MATHS MSE'', ''SR.No''],
      iterrows = [scenario_row1, scenario_row2]\<rparr>"

section \<open>Facts about the string primitives\<close>

lemma str_contains_iff: "str_contains sub s \<longleftrightarrow> (\<exists>pre post. s = pre @ sub @ post)"
proof (induction s)
  case Nil
  then show ?case by auto
next
  case (Cons c cs)
  show ?case
  proof
    assume "str_contains sub (c # cs)"
    then consider "prefix sub (c # cs)" | "str_contains sub cs" by auto
    then show "\<exists>pre post. c # cs = pre @ sub @ post"
    proof cases
      case 1
      then obtain post where "c # cs = sub @ post" by (auto simp: prefix_def)
      then have "c # cs = [] @ sub @ post" by simp
      then show ?thesis by blast
    next
      case 2
      with Cons.IH obtain pre post where "cs = pre @ sub @ post" by blast
      then have "c # cs = (c # pre) @ sub @ post" by simp
      then show ?thesis by blast
    qed
  next
    assume "\<exists>pre post. c # cs = pre @ sub @ post"
    then obtain pre post where eq: "c # cs = pre @ sub @ post" by blast
    show "str_contains sub (c # cs)"
    proof (cases pre)
      case Nil
      with eq have "prefix sub (c # cs)" by (simp add: prefix_def)
      then show ?thesis by simp
    next
      case (Cons a pre')
      with eq have "cs = pre' @ sub @ post" by simp
      with Cons.IH have "str_contains sub cs" by blast
      then show ?thesis by simp
    qed
  qed
qed

lemma upper_append: "upper (a @ b) = upper a @ upper b"
  by (simp add: upper_def)

lemma str_contains_upper: "str_contains sub s \<Longrightarrow> str_contains (upper sub) (upper s)"
  unfolding str_contains_iff by (metis upper_append)

lemma str_contains_trans: "str_contains a b \<Longrightarrow> str_contains b c \<Longrightarrow> str_contains a c"
  unfolding str_contains_iff by (metis append.assoc)

lemma search_word_from_contains: "search_word_from w prev s \<Longrightarrow> str_contains w s"
  by (induction s arbitrary: prev) auto

lemma is_word_char_to_upper: "is_word_char (to_upper c) = is_word_char c"
  by (auto simp add: to_upper_def is_word_char_def is_alpha_def is_lower_def is_upper_def is_digit_def less_eq_char_def)

lemma prefix_upper: "prefix w s \<Longrightarrow> prefix (upper w) (upper s)"
  by (auto simp: prefix_def upper_def)

lemma search_word_from_upper:
  "search_word_from w prev s \<Longrightarrow> search_word_from (upper w) prev (upper s)"
proof (induction s arbitrary: prev)
  case Nil
  then show ?case by simp
next
  case (Cons c cs)
  from Cons.prems consider
      (here) "\<not> prev" "prefix w (c # cs)"
        "(case drop (length w) (c # cs) of [] \<Rightarrow> True | d # _ \<Rightarrow> \<not> is_word_char d)"
    | (later) "search_word_from w (is_word_char c) cs"
    by auto
  then show ?case
  proof cases
    case here
    have p: "prefix (upper w) (upper (c # cs))" using here(2) by (rule prefix_upper)
    have d: "drop (length (upper w)) (upper (c # cs)) = upper (drop (length w) (c # cs))"
      unfolding upper_def by (simp only: length_map drop_map)
    have "(case upper (drop (length w) (c # cs)) of [] \<Rightarrow> True | d # _ \<Rightarrow> \<not> is_word_char d)"
      using here(3) by (cases "drop (length w) (c # cs)") (simp_all add: upper_def is_word_char_to_upper)
    with p d here(1) show ?thesis by (simp add: upper_def)
  next
    case later
    then have "search_word_from (upper w) (is_word_char c) (upper cs)" by (rule Cons.IH)
    then show ?thesis by (simp add: upper_def is_word_char_to_upper)
  qed
qed

section \<open>Practical columns and maximum marks\<close>

lemma upper_PRACTICAL: "upper ''PRACTICAL'' = ''PRACTICAL''"
  by code_simp

lemma upper_PR: "upper ''PR'' = ''PR''"
  by code_simp

lemma PR_in_PRACTICAL: "str_contains ''PR'' ''PRACTICAL''"
  by code_simp

lemma practical_guard_open:
  assumes "str_contains ''PRACTICAL'' u \<or> search_PR_token u"
  shows "str_contains ''PR'' u"
  using assms PR_in_PRACTICAL str_contains_trans search_word_from_contains
  unfolding search_PR_token_def by blast

lemma search_word_from_iff:
  assumes "w \<noteq> []"
  shows "search_word_from w prev s \<longleftrightarrow>
    (\<exists>pre post. s = pre @ w @ post
       \<and> (if pre = [] then \<not> prev else \<not> is_word_char (last pre))
       \<and> (case post of [] \<Rightarrow> True | d # _ \<Rightarrow> \<not> is_word_char d))"
proof (induction s arbitrary: prev)
  case Nil
  then show ?case using assms by simp
next
  case (Cons c cs)
  show ?case
  proof
    assume "search_word_from w prev (c # cs)"
    then consider
        (here) "\<not> prev" "prefix w (c # cs)"
          "(case drop (length w) (c # cs) of [] \<Rightarrow> True | d # _ \<Rightarrow> \<not> is_word_char d)"
      | (later) "search_word_from w (is_word_char c) cs"
      by auto
    then show "\<exists>pre post. c # cs = pre @ w @ post
       \<and> (if pre = [] then \<not> prev else \<not> is_word_char (last pre))
       \<and> (case post of [] \<Rightarrow> True | d # _ \<Rightarrow> \<not> is_word_char d)"
    proof cases
      case here
      from here(2) obtain post where eq: "c # cs = w @ post" by (auto simp: prefix_def)
      then have "drop (length w) (c # cs) = post" by simp
      with here(3) have "(case post of [] \<Rightarrow> True | d # _ \<Rightarrow> \<not> is_word_char d)" by simp
      moreover have "c # cs = [] @ w @ post" using eq by simp
      ultimately show ?thesis using here(1) by (intro exI [of _ "[]"] exI [of _ post]) simp
    next
      case later
      with Cons.IH obtain pre post where
        eq: "cs = pre @ w @ post"
        and b: "if pre = [] then \<not> is_word_char c else \<not> is_word_char (last pre)"
        and a: "(case post of [] \<Rightarrow> True | d # _ \<Rightarrow> \<not> is_word_char d)"
        by blast
      have "c # cs = (c # pre) @ w @ post" using eq by simp
      moreover have "\<not> is_word_char (last (c # pre))" using b by (simp split: if_splits)
      ultimately show ?thesis using a by (intro exI [of _ "c # pre"] exI [of _ post]) simp
    qed
  next
    assume "\<exists>pre post. c # cs = pre @ w @ post
       \<and> (if pre = [] then \<not> prev else \<not> is_word_char (last pre))
       \<and> (case post of [] \<Rightarrow> True | d # _ \<Rightarrow> \<not> is_word_char d)"
    then obtain pre post where
      eq: "c # cs = pre @ w @ post"
      and b: "if pre = [] then \<not> prev else \<not> is_word_char (last pre)"
      and a: "(case post of [] \<Rightarrow> True | d # _ \<Rightarrow> \<not> is_word_char d)"
      by blast
    show "search_word_from w prev (c # cs)"
    proof (cases pre)
      case Nil
      with eq have eq': "c # cs = w @ post" by simp
      then have "prefix w (c # cs)" by (simp add: prefix_def)
      moreover have "drop (length w) (c # cs) = post" using eq' by simp
      moreover have "\<not> prev" using b Nil by simp
      ultimately show ?thesis using a by simp
    next
      case (Cons x pre')
      with eq have c: "x = c" and eq': "cs = pre' @ w @ post" by simp_all
      have "if pre' = [] then \<not> is_word_char c else \<not> is_word_char (last pre')"
        using b Cons c by (simp split: if_splits)
      with eq' a have "search_word_from w (is_word_char c) cs"
        using Cons.IH [of "is_word_char c"] by blast
      then show ?thesis by simp
    qed
  qed
qed

lemma search_PR_token_iff:
  "search_PR_token s \<longleftrightarrow>
    (\<exists>pre post. s = pre @ ''PR'' @ post
       \<and> (pre = [] \<or> \<not> is_word_char (last pre))
       \<and> (post = [] \<or> \<not> is_word_char (hd post)))"
proof -
  have "(case post of [] \<Rightarrow> True | d # _ \<Rightarrow> \<not> is_word_char d)
        \<longleftrightarrow> (post = [] \<or> \<not> is_word_char (hd post))" for post
    by (cases post) simp_all
  moreover have "(if pre = [] then \<not> False else \<not> is_word_char (last pre))
        \<longleftrightarrow> (pre = [] \<or> \<not> is_word_char (last pre))" for pre
    by simp
  ultimately show ?thesis
    unfolding search_PR_token_def
    by (subst search_word_from_iff) simp_all
qed

lemma is_practical_col_iff:
  "is_practical_col H \<longleftrightarrow>
     (str_contains ''PRACTICAL'' (upper H) \<or> search_PR_token (upper H))"
proof
  assume "is_practical_col H"
  then show "str_contains ''PRACTICAL'' (upper H) \<or> search_PR_token (upper H)"
    by (simp add: is_practical_col_def Let_def split: if_splits)
next
  assume h: "str_contains ''PRACTICAL'' (upper H) \<or> search_PR_token (upper H)"
  then have "str_contains ''PR'' (upper H)" by (rule practical_guard_open)
  moreover from this have "H \<noteq> []" by (auto simp: upper_def)
  ultimately show "is_practical_col H" using h by (simp add: is_practical_col_def)
qed

text \<open>
  Claim C1. \<open>_is_practical_col\<close> tests the markers on the uppercased header, so
  containment is read without regard to case.
  For every header \<open>H\<close> the result is true exactly when the uppercased header contains
  \<open>PRACTICAL\<close> or has \<open>PR\<close> as a token between word boundaries, that is, an
  occurrence of \<open>PR\<close> with no word character directly before it and none directly
  after it. So it is true when \<open>H\<close> (as written, or uppercased) contains \<open>PRACTICAL\<close>
  or such a token, and false when the uppercased header contains \<open>TW\<close> and does not
  contain \<open>PR\<close>. In particular \<open>DBMS TW\<close> is not practical, \<open>DBMS PRACTICAL\<close> and
  \<open>DBMS PR\<close> are; \<open>Name\<close>, \<open>MATHS ESE\<close> and the empty header are not, and neither are
  \<open>PROLOG\<close> and \<open>DBMS_PR\<close>, where \<open>PR\<close> is part of a longer word.
\<close>

theorem is_practical_col_spec:
  "(is_practical_col H \<longleftrightarrow>
      str_contains ''PRACTICAL'' (upper H) \<or> search_PR_token (upper H))
   \<and> (search_PR_token (upper H) \<longleftrightarrow>
        (\<exists>pre post. upper H = pre @ ''PR'' @ post
           \<and> (pre = [] \<or> \<not> is_word_char (last pre))
           \<and> (post = [] \<or> \<not> is_word_char (hd post))))
   \<and> (str_contains ''PRACTICAL'' (upper H) \<or> search_PR_token (upper H) \<longrightarrow> is_practical_col H)
   \<and> (str_contains ''PRACTICAL'' H \<or> search_PR_token H \<longrightarrow> is_practical_col H)
   \<and> (str_contains ''TW'' (upper H) \<and> \<not> str_contains ''PR'' (upper H) \<longrightarrow> \<not> is_practical_col H)
   \<and> \<not> is_practical_col ''DBMS TW''
   \<and> is_practical_col ''DBMS PRACTICAL''
   \<and> is_practical_col ''DBMS PR''
   \<and> \<not> is_practical_col ''Name''
   \<and> \<not> is_practical_col ''MATHS ESE''
   \<and> \<not> is_practical_col []
   \<and> \<not> is_practical_col ''PROLOG''
   \<and> \<not> is_practical_col ''DBMS_PR''"
proof (intro conjI impI)
  show "is_practical_col H \<longleftrightarrow>
      str_contains ''PRACTICAL'' (upper H) \<or> search_PR_token (upper H)"
    by (rule is_practical_col_iff)
  show "search_PR_token (upper H) \<longleftrightarrow>
        (\<exists>pre post. upper H = pre @ ''PR'' @ post
           \<and> (pre = [] \<or> \<not> is_word_char (last pre))
           \<and> (post = [] \<or> \<not> is_word_char (hd post)))"
    by (rule search_PR_token_iff)
  show "is_practical_col H"
    if "str_contains ''PRACTICAL'' (upper H) \<or> search_PR_token (upper H)"
    using that by (simp add: is_practical_col_iff)
  show "is_practical_col H" if h: "str_contains ''PRACTICAL'' H \<or> search_PR_token H"
  proof -
    from h have "str_contains ''PRACTICAL'' (upper H) \<or> search_PR_token (upper H)"
      using str_contains_upper [of "''PRACTICAL''" H] search_word_from_upper [of "''PR''" False H]
      by (auto simp: upper_PRACTICAL upper_PR search_PR_token_def)
    then show ?thesis by (simp add: is_practical_col_iff)
  qed
  show "\<not> is_practical_col H" if "str_contains ''TW'' (upper H) \<and> \<not> str_contains ''PR'' (upper H)"
    using that by (simp add: is_practical_col_def)
  show "\<not> is_practical_col ''DBMS TW''" by code_simp
  show "is_practical_col ''DBMS PRACTICAL''" by code_simp
  show "is_practical_col ''DBMS PR''" by code_simp
  show "\<not> is_practical_col ''Name''" by code_simp
  show "\<not> is_practical_col ''MATHS ESE''" by code_simp
  show "\<not> is_practical_col []" by code_simp
  show "\<not> is_practical_col ''PROLOG''" by code_simp
  show "\<not> is_practical_col ''DBMS_PR''" by code_simp
qed

theorem is_practical_col_spec_witness:
  "str_contains ''PRACTICAL'' (upper ''Dbms Practical'') \<and> is_practical_col ''Dbms Practical''
   \<and> search_PR_token ''OS PR'' \<and> is_practical_col ''OS PR''
   \<and> str_contains ''TW'' (upper ''Os Tw'') \<and> \<not> str_contains ''PR'' (upper ''Os Tw'')
   \<and> \<not> is_practical_col ''Os Tw''
   \<and> \<not> str_contains ''PRACTICAL'' (upper ''Project'') \<and> \<not> search_PR_token (upper ''Project'')
   \<and> \<not> is_practical_col ''Project''"
proof -
  have a: "str_contains ''PRACTICAL'' (upper ''Dbms Practical'')"
    by code_simp
  have b: "search_PR_token ''OS PR''"
    by code_simp
  have c: "str_contains ''TW'' (upper ''Os Tw'') \<and> \<not> str_contains ''PR'' (upper ''Os Tw'')"
    by code_simp
  have d: "\<not> str_contains ''PRACTICAL'' (upper ''Project'') \<and> \<not> search_PR_token (upper ''Project'')"
    by code_simp
  have e1: "is_practical_col ''Dbms Practical'' \<longleftrightarrow>
      str_contains ''PRACTICAL'' (upper ''Dbms Practical'') \<or> search_PR_token (upper ''Dbms Practical'')"
    using is_practical_col_spec [of "''Dbms Practical''"] by (rule conjunct1)
  have e2: "str_contains ''PRACTICAL'' ''OS PR'' \<or> search_PR_token ''OS PR'' \<longrightarrow> is_practical_col ''OS PR''"
    using is_practical_col_spec [of "''OS PR''"]
    by (elim conjE)
  have e3: "str_contains ''TW'' (upper ''Os Tw'') \<and> \<not> str_contains ''PR'' (upper ''Os Tw'')
      \<longrightarrow> \<not> is_practical_col ''Os Tw''"
    using is_practical_col_spec [of "''Os Tw''"]
    by (elim conjE)
  have e4: "is_practical_col ''Project'' \<longleftrightarrow>
      str_contains ''PRACTICAL'' (upper ''Project'') \<or> search_PR_token (upper ''Project'')"
    using is_practical_col_spec [of "''Project''"] by (rule conjunct1)
  from a e1 have r1: "is_practical_col ''Dbms Practical''" by blast
  from b e2 have r2: "is_practical_col ''OS PR''" by blast
  from c e3 have r3: "\<not> is_practical_col ''Os Tw''" by blast
  from d e4 have r4: "\<not> is_practical_col ''Project''" by blast
  from a b c d r1 r2 r3 r4 show ?thesis by blast
qed

text \<open>
  Claim C4. \<open>_get_max_marks_for_subject\<close> gives 60 for \<open>ESE\<close>, 25 for \<open>MSE\<close>, \<open>ISE\<close>,
  \<open>PRACTICAL\<close> and \<open>PR\<close>, 50 for \<open>TW\<close>, 100 for \<open>UNKNOWN\<close> and for every type in
  which no marker occurs, and 100 when no assessment type is supplied. The subject
  name \<open>s\<close> plays no part.
\<close>

theorem max_marks_lookup:
  "get_max_marks_for_subject s (Some ''ESE'') = 60
   \<and> get_max_marks_for_subject s (Some ''MSE'') = 25
   \<and> get_max_marks_for_subject s (Some ''ISE'') = 25
   \<and> get_max_marks_for_subject s (Some ''TW'') = 50
   \<and> get_max_marks_for_subject s (Some ''PRACTICAL'') = 25
   \<and> get_max_marks_for_subject s (Some ''PR'') = 25
   \<and> get_max_marks_for_subject s (Some ''UNKNOWN'') = 100
   \<and> get_max_marks_for_subject s None = 100
   \<and> (\<not> str_contains ''ESE'' (upper t) \<and> \<not> str_contains ''ISE'' (upper t)
        \<and> \<not> str_contains ''MSE'' (upper t) \<and> \<not> str_contains ''PRACTICAL'' (upper t)
        \<and> \<not> str_contains ''PR'' (upper t) \<and> \<not> str_contains ''TW'' (upper t)
      \<longrightarrow> get_max_marks_for_subject s (Some t) = 100)"
  by (simp add: get_max_marks_for_subject_def upper_def to_upper_def is_lower_def)

theorem max_marks_lookup_witness:
  "\<not> str_contains ''ESE'' (upper ''Viva'') \<and> \<not> str_contains ''ISE'' (upper ''Viva'')
   \<and> \<not> str_contains ''MSE'' (upper ''Viva'') \<and> \<not> str_contains ''PRACTICAL'' (upper ''Viva'')
   \<and> \<not> str_contains ''PR'' (upper ''Viva'') \<and> \<not> str_contains ''TW'' (upper ''Viva'')
   \<and> get_max_marks_for_subject ''Maths'' (Some ''Viva'') = 100"
proof -
  have h: "\<not> str_contains ''ESE'' (upper ''Viva'') \<and> \<not> str_contains ''ISE'' (upper ''Viva'')
   \<and> \<not> str_contains ''MSE'' (upper ''Viva'') \<and> \<not> str_contains ''PRACTICAL'' (upper ''Viva'')
   \<and> \<not> str_contains ''PR'' (upper ''Viva'') \<and> \<not> str_contains ''TW'' (upper ''Viva'')"
    by code_simp
  from h max_marks_lookup [of "''Maths''" "''Viva''"] show ?thesis by blast
qed

section \<open>Percentage of a row\<close>

lemma row_percentage_loop_sums:
  "row_percentage_loop mx row cols (ob, mt) =
     (ob + sum_list (map (\<lambda>c. cell_value (series_get row c)) cols),
      mt + sum_list (map mx (filter (\<lambda>c. is_numeric (series_get row c)) cols)))"
proof (induction cols arbitrary: ob mt)
  case Nil
  then show ?case by simp
next
  case (Cons c cols)
  show ?case
    by (cases "series_get row c") (simp_all add: Cons.IH to_float_def is_numeric_def cell_value_def)
qed

lemma row_percentage_eq:
  "row_percentage mx row cols =
     (let max_total = sum_list (map mx (filter (\<lambda>c. is_numeric (series_get row c)) cols)) in
      if max_total > 0
      then Some (sum_list (map (\<lambda>c. cell_value (series_get row c)) cols) / max_total * 100)
      else None)"
  by (simp add: row_percentage_def row_percentage_loop_sums Let_def)

text \<open>
  Claim C3, as amended. For every row and list of columns, \<open>_row_percentage\<close> divides
  the sum of the numeric cells of the listed columns (a missing or non-numeric cell
  adds nothing) by the sum of the maxima of those listed columns whose cell in this
  row is numeric, times 100, when that sum of maxima is positive, and gives the
  no-data value otherwise. For the first row of the scenario, 20, 45 and 20 against
  25 + 60 + 25 = 110, the result is 85 / 110 * 100, within 0.005 of 77.27.
\<close>

theorem row_percentage_numeric_columns:
  "row_percentage mx row cols =
     (let max_total = sum_list (map mx (filter (\<lambda>c. is_numeric (series_get row c)) cols)) in
      if max_total > 0
      then Some (sum_list (map (\<lambda>c. cell_value (series_get row c)) cols) / max_total * 100)
      else None)
   \<and> row_percentage scenario_max (\<lambda>c. Some (scenario_row1 c))
        [''MATHS MSE'', ''MATHS ESE'', ''DBMS PRACTICAL''] = Some ((20 + 45 + 20) / 110 * 100)
   \<and> \<bar>(20 + 45 + 20) / 110 * 100 - (77.27 :: real)\<bar> < 0.005"
proof (intro conjI)
  show "row_percentage scenario_max (\<lambda>c. Some (scenario_row1 c))
        [''MATHS MSE'', ''MATHS ESE'', ''DBMS PRACTICAL''] = Some ((20 + 45 + 20) / 110 * 100)"
    by (simp add: row_percentage_def series_get_def to_float_def scenario_max_def scenario_row1_def)
qed (simp_all add: row_percentage_eq)

text \<open>
  With 20 marks in the MSE column and no entry in the ESE column the result is
  20 / 25 * 100 = 80: the ESE maximum of 60 is not part of the denominator.
\<close>

theorem row_percentage_numeric_columns_witness:
  "row_percentage scenario_max [''MATHS MSE'' \<mapsto> Num 20, ''MATHS ESE'' \<mapsto> Blank]
     [''MATHS MSE'', ''MATHS ESE''] = Some 80"
  using row_percentage_numeric_columns
    [of scenario_max "[''MATHS MSE'' \<mapsto> Num 20, ''MATHS ESE'' \<mapsto> Blank]" "[''MATHS MSE'', ''MATHS ESE'']"]
  by (simp add: series_get_def is_numeric_def cell_value_def scenario_max_def)

text \<open>
  Claim C3 as stated fails on that row: the quotient over the maxima of all listed
  columns, 20 / (25 + 60) * 100, is not what the function returns.
\<close>

theorem row_percentage_all_maxima_counterexample:
  "row_percentage scenario_max [''MATHS MSE'' \<mapsto> Num 20, ''MATHS ESE'' \<mapsto> Blank]
     [''MATHS MSE'', ''MATHS ESE'']
   \<noteq> Some ((cell_value (series_get [''MATHS MSE'' \<mapsto> Num 20, ''MATHS ESE'' \<mapsto> Blank] ''MATHS MSE'')
             + cell_value (series_get [''MATHS MSE'' \<mapsto> Num 20, ''MATHS ESE'' \<mapsto> Blank] ''MATHS ESE''))
            / (scenario_max ''MATHS MSE'' + scenario_max ''MATHS ESE'') * 100)"
  by (simp add: row_percentage_def series_get_def to_float_def cell_value_def scenario_max_def)

lemma sum_list_filter_le:
  fixes mx :: "'a \<Rightarrow> real"
  shows "(\<forall>c \<in> set cols. 0 \<le> mx c)
    \<Longrightarrow> sum_list (map mx (filter P cols)) \<le> sum_list (map mx cols)"
  by (induction cols) (auto simp: add_increasing)

text \<open>
  Claim C8. When the summed maximum that \<open>_row_percentage\<close> accumulates is zero, the
  result is the no-data value \<open>None\<close>, neither a number nor an error. That is the
  case when no listed column has a numeric cell, when the maxima of all listed
  columns are non-negative and sum to zero, and for the empty list of columns.
\<close>

theorem row_percentage_no_data:
  "(sum_list (map mx (filter (\<lambda>c. is_numeric (series_get row c)) cols)) = 0
      \<longrightarrow> row_percentage mx row cols = None)
   \<and> (list_all (\<lambda>c. 0 \<le> mx c) cols \<and> sum_list (map mx cols) = 0
      \<longrightarrow> row_percentage mx row cols = None)
   \<and> row_percentage mx row [] = None"
proof (intro conjI impI)
  show "row_percentage mx row cols = None"
    if "sum_list (map mx (filter (\<lambda>c. is_numeric (series_get row c)) cols)) = 0"
    using that by (simp add: row_percentage_eq)
  show "row_percentage mx row cols = None"
    if h: "list_all (\<lambda>c. 0 \<le> mx c) cols \<and> sum_list (map mx cols) = 0"
  proof -
    have "sum_list (map mx (filter (\<lambda>c. is_numeric (series_get row c)) cols))
            \<le> sum_list (map mx cols)"
      using h by (intro sum_list_filter_le) (simp add: list_all_iff)
    then show ?thesis using h by (simp add: row_percentage_eq Let_def not_less)
  qed
  show "row_percentage mx row [] = None" by (simp add: row_percentage_eq)
qed

theorem row_percentage_no_data_witness:
  "sum_list (map scenario_max
      (filter (\<lambda>c. is_numeric (series_get [''MATHS MSE'' \<mapsto> Blank, ''MATHS ESE'' \<mapsto> Junk] c))
         [''MATHS MSE'', ''MATHS ESE'', ''DBMS PRACTICAL''])) = 0
   \<and> row_percentage scenario_max [''MATHS MSE'' \<mapsto> Blank, ''MATHS ESE'' \<mapsto> Junk]
         [''MATHS MSE'', ''MATHS ESE'', ''DBMS PRACTICAL''] = None
   \<and> list_all (\<lambda>c. 0 \<le> (\<lambda>c. 0 :: real) c) [''Name'']
   \<and> sum_list (map (\<lambda>c. 0 :: real) [''Name'']) = 0
   \<and> row_percentage (\<lambda>c. 0) [''Name'' \<mapsto> Num 7] [''Name''] = None"
proof -
  have a: "sum_list (map scenario_max
      (filter (\<lambda>c. is_numeric (series_get [''MATHS MSE'' \<mapsto> Blank, ''MATHS ESE'' \<mapsto> Junk] c))
         [''MATHS MSE'', ''MATHS ESE'', ''DBMS PRACTICAL''])) = 0"
    by (simp add: series_get_def is_numeric_def)
  have b: "list_all (\<lambda>c. 0 \<le> (\<lambda>c. 0 :: real) c) [''Name'']
      \<and> sum_list (map (\<lambda>c. 0 :: real) [''Name'']) = 0"
    by simp
  from a b
    row_percentage_no_data [of scenario_max "[''MATHS MSE'' \<mapsto> Blank, ''MATHS ESE'' \<mapsto> Junk]"
      "[''MATHS MSE'', ''MATHS ESE'', ''DBMS PRACTICAL'']"]
    row_percentage_no_data [of "\<lambda>c. 0" "[''Name'' \<mapsto> Num 7]" "[''Name'']"]
  show ?thesis by blast
qed

section \<open>Marks of a subject and their summary\<close>

lemma subject_cols_loop_filter:
  "subject_cols_loop s cols acc = acc @ filter (is_exam_col s) cols"
  by (induction cols arbitrary: acc) (simp_all add: is_exam_col_def Let_def)

lemma row_total_sum:
  "row_total row cols t = t + sum_list (map (\<lambda>c. cell_value (row c)) cols)"
proof (induction cols arbitrary: t)
  case Nil
  then show ?case by simp
next
  case (Cons c cols)
  show ?case by (cases "row c") (simp_all add: Cons.IH cell_value_def)
qed

lemma marks_loop_map:
  "marks_loop rows cols acc = acc @ map (\<lambda>row. row_total row cols 0) rows"
  by (induction rows arbitrary: acc) simp_all

lemma get_subject_marks_eq:
  "get_subject_marks df s =
     (if filter (is_exam_col s) (columns df) = [] then None
      else Some (map (\<lambda>row. sum_list (map (\<lambda>c. cell_value (row c))
                        (filter (is_exam_col s) (columns df)))) (iterrows df)))"
  by (simp add: get_subject_marks_def subject_cols_loop_filter marks_loop_map row_total_sum Let_def)

lemma fold_max_Max: "fold max rest (x::real) = Max (set (x # rest))"
  by (rule Max.set_eq_fold [symmetric])

lemma fold_min_Min: "fold min rest (x::real) = Min (set (x # rest))"
  by (rule Min.set_eq_fold [symmetric])

lemma summary_nonempty:
  assumes "get_subject_marks df s = Some ms" "ms \<noteq> []"
  shows "get_subject_marks_summary df s =
     Inr (Some \<lparr>total_marks = ms,
                average_marks = sum_list ms / real (length ms),
                max_marks = Max (set ms),
                min_marks = Min (set ms),
                std_marks = sqrt (sum_list (map (\<lambda>x. (x - sum_list ms / real (length ms))\<^sup>2) ms)
                                  / real (length ms))\<rparr>)"
proof -
  from assms(2) obtain x rest where ms: "ms = x # rest" by (cases ms) auto
  show ?thesis
    unfolding get_subject_marks_summary_def assms(1) ms np_max_def np_min_def np_std_def np_mean_def
    by (simp add: fold_max_Max fold_min_Min)
qed

lemma three_students_marks: "get_subject_marks three_students ''Maths'' = Some [70, 40, 85]"
proof -
  have "filter (is_exam_col ''Maths'') [''Roll No'', ''MATHS MSE'', ''MATHS ESE'']
        = [''MATHS MSE'', ''MATHS ESE'']"
    by code_simp
  then show ?thesis
    by (simp add: get_subject_marks_eq three_students_def cell_value_def)
qed

lemma sqrt_350_bounds: "18.70 < sqrt 350 \<and> sqrt 350 < 18.71"
proof
  show "18.70 < sqrt 350" by (rule real_less_rsqrt) (simp add: power2_eq_square)
  show "sqrt 350 < 18.71" by (rule real_less_lsqrt) (simp_all add: power2_eq_square)
qed

lemma three_students_summary:
  "get_subject_marks_summary three_students ''Maths'' =
     Inr (Some \<lparr>total_marks = [70, 40, 85], average_marks = 65, max_marks = 85,
                min_marks = 40, std_marks = sqrt 350\<rparr>)"
  using summary_nonempty [OF three_students_marks] by simp


text \<open>
  Claim C5. For every table and subject name, the columns that \<open>get_subject_marks\<close>
  keeps are exactly the headers, in table order, whose uppercased text contains the
  uppercased subject name and contains \<open>MSE\<close> or \<open>ESE\<close>. When there is no such column
  the result is \<open>None\<close> (no list at all, so no zero-filled list), and
  \<open>get_subject_marks_summary\<close> returns \<open>None\<close> as well; when there is one the result
  is not \<open>None\<close>.
\<close>

theorem subject_marks_no_data:
  "subject_cols_loop s (columns df) [] = filter (is_exam_col s) (columns df)
   \<and> (filter (is_exam_col s) (columns df) = []
        \<longrightarrow> get_subject_marks df s = None \<and> get_subject_marks_summary df s = Inr None)
   \<and> (filter (is_exam_col s) (columns df) \<noteq> [] \<longrightarrow> get_subject_marks df s \<noteq> None)
   \<and> (get_subject_marks df s = None \<longrightarrow> get_subject_marks_summary df s = Inr None)"
  by (simp add: subject_cols_loop_filter get_subject_marks_eq get_subject_marks_summary_def)

theorem subject_marks_no_data_witness:
  "filter (is_exam_col ''Dbms'') (columns scenario_table) = []
   \<and> get_subject_marks scenario_table ''Dbms'' = None
   \<and> get_subject_marks_summary scenario_table ''Dbms'' = Inr None
   \<and> filter (is_exam_col ''Maths'') (columns scenario_table) \<noteq> []
   \<and> get_subject_marks scenario_table ''Maths'' \<noteq> None"
proof -
  have a: "filter (is_exam_col ''Dbms'') (columns scenario_table) = []" by code_simp
  have b: "filter (is_exam_col ''Maths'') (columns scenario_table) \<noteq> []" by code_simp
  from a b subject_marks_no_data [of "''Dbms''" scenario_table]
    subject_marks_no_data [of "''Maths''" scenario_table]
  show ?thesis by blast
qed

text \<open>
  Claim C6. For every table with at least one MSE or ESE column of the subject,
  \<open>get_subject_marks\<close> returns one total for each row, in the order of the rows; the
  total of a row is the sum of its cells over the kept columns, a missing or
  non-numeric cell counting as zero. A student with 20 in the MSE column and 50 in
  the ESE column gets the raw total 70.
\<close>

theorem subject_marks_totals:
  "(filter (is_exam_col s) (columns df) \<noteq> [] \<longrightarrow>
      get_subject_marks df s =
        Some (map (\<lambda>row. sum_list (map (\<lambda>c. cell_value (row c))
                     (filter (is_exam_col s) (columns df)))) (iterrows df))
      \<and> map_option length (get_subject_marks df s) = Some (length (iterrows df)))
   \<and> get_subject_marks
        \<lparr>columns = [''MATHS MSE'', ''MATHS ESE''],
         iterrows = [\<lambda>c. if c = ''MATHS MSE'' then Num 20 else Num 50]\<rparr> ''Maths'' = Some [70]"
proof (intro conjI impI)
  have "filter (is_exam_col ''Maths'') [''MATHS MSE'', ''MATHS ESE'']
        = [''MATHS MSE'', ''MATHS ESE'']"
    by code_simp
  then show "get_subject_marks
        \<lparr>columns = [''MATHS MSE'', ''MATHS ESE''],
         iterrows = [\<lambda>c. if c = ''MATHS MSE'' then Num 20 else Num 50]\<rparr> ''Maths'' = Some [70]"
    by (simp add: get_subject_marks_eq cell_value_def)
qed (simp_all add: get_subject_marks_eq)

theorem subject_marks_totals_witness:
  "filter (is_exam_col ''Maths'') (columns scenario_table) \<noteq> []
   \<and> get_subject_marks scenario_table ''Maths'' = Some [65, 40]"
proof -
  have f: "filter (is_exam_col ''Maths'') (columns scenario_table) = [''MATHS MSE'', ''MATHS ESE'']"
    by code_simp
  then have a: "filter (is_exam_col ''Maths'') (columns scenario_table) \<noteq> []" by simp
  from a subject_marks_totals [of "''Maths''" scenario_table]
  have "get_subject_marks scenario_table ''Maths'' =
        Some (map (\<lambda>row. sum_list (map (\<lambda>c. cell_value (row c))
                     (filter (is_exam_col ''Maths'') (columns scenario_table))))
                (iterrows scenario_table))"
    by blast
  then have "get_subject_marks scenario_table ''Maths'' = Some [65, 40]"
    unfolding f by (simp add: scenario_table_def scenario_row1_def scenario_row2_def cell_value_def)
  with a show ?thesis by simp
qed

text \<open>
  Claim C7, as amended. Over a non-empty list of totals \<open>get_subject_marks_summary\<close>
  returns the totals, their mean, their greatest and least element, and the
  population standard deviation (the square root of the mean squared distance from
  the mean). Over the totals 70, 40 and 85 that is the mean 65, the maximum 85, the
  minimum 40 and the standard deviation \<open>sqrt 350\<close>, which lies between 18.70 and
  18.71.
\<close>

theorem summary_population_statistics:
  "(get_subject_marks df s = Some ms \<and> ms \<noteq> [] \<longrightarrow>
      get_subject_marks_summary df s =
        Inr (Some \<lparr>total_marks = ms,
                   average_marks = sum_list ms / real (length ms),
                   max_marks = Max (set ms),
                   min_marks = Min (set ms),
                   std_marks = sqrt (sum_list (map (\<lambda>x. (x - sum_list ms / real (length ms))\<^sup>2) ms)
                                     / real (length ms))\<rparr>))
   \<and> (get_subject_marks df s = Some [70, 40, 85] \<longrightarrow>
      get_subject_marks_summary df s =
        Inr (Some \<lparr>total_marks = [70, 40, 85], average_marks = 65, max_marks = 85,
                   min_marks = 40, std_marks = sqrt 350\<rparr>))
   \<and> 18.70 < sqrt 350 \<and> sqrt 350 < 18.71"
proof (intro conjI impI)
  show "get_subject_marks_summary df s =
        Inr (Some \<lparr>total_marks = ms,
                   average_marks = sum_list ms / real (length ms),
                   max_marks = Max (set ms),
                   min_marks = Min (set ms),
                   std_marks = sqrt (sum_list (map (\<lambda>x. (x - sum_list ms / real (length ms))\<^sup>2) ms)
                                     / real (length ms))\<rparr>)"
    if "get_subject_marks df s = Some ms \<and> ms \<noteq> []"
    using that summary_nonempty by blast
  show "get_subject_marks_summary df s =
        Inr (Some \<lparr>total_marks = [70, 40, 85], average_marks = 65, max_marks = 85,
                   min_marks = 40, std_marks = sqrt 350\<rparr>)"
    if h: "get_subject_marks df s = Some [70, 40, 85]"
    using summary_nonempty [OF h] by simp
  show "18.70 < sqrt 350" using sqrt_350_bounds by (rule conjunct1)
  show "sqrt 350 < 18.71" using sqrt_350_bounds by (rule conjunct2)
qed

theorem summary_population_statistics_witness:
  "get_subject_marks three_students ''Maths'' = Some [70, 40, 85]
   \<and> get_subject_marks_summary three_students ''Maths'' =
        Inr (Some \<lparr>total_marks = [70, 40, 85], average_marks = 65, max_marks = 85,
                   min_marks = 40, std_marks = sqrt 350\<rparr>)"
  using three_students_marks summary_population_statistics [of three_students "''Maths''"]
  by blast

text \<open>
  Claim C7 as stated fails on the table of three students: the standard deviation
  that is returned for the totals 70, 40 and 85 is \<open>sqrt 350\<close>, more than 0.4 away
  from 18.3.
\<close>

theorem summary_std_counterexample:
  "get_subject_marks three_students ''Maths'' = Some [70, 40, 85]
   \<and> get_subject_marks_summary three_students ''Maths'' =
        Inr (Some \<lparr>total_marks = [70, 40, 85], average_marks = 65, max_marks = 85,
                   min_marks = 40, std_marks = sqrt 350\<rparr>)
   \<and> \<not> \<bar>sqrt 350 - 18.3\<bar> \<le> 0.4"
  using three_students_marks three_students_summary sqrt_350_bounds by simp

section \<open>The subject-name candidate of a header\<close>

lemma str_contains_length: "str_contains sub s \<Longrightarrow> length sub \<le> length s"
  by (auto simp: str_contains_iff)

lemma prefix_before_occurrence:
  assumes "sep \<noteq> []" "prefix sep (x # pre @ sep @ post)"
  shows "prefix sep (x # pre @ butlast sep)"
proof -
  have "sep = butlast sep @ [last sep]" using assms(1) by simp
  then have "x # pre @ sep @ post = (x # pre @ butlast sep) @ (last sep # post)"
    by (metis append.assoc append_Cons append_Nil)
  then have "prefix (x # pre @ butlast sep) (x # pre @ sep @ post)"
    by (metis prefixI)
  moreover have "length sep \<le> length (x # pre @ butlast sep)"
    using assms(1) by (cases sep) auto
  ultimately show ?thesis using assms(2) prefix_length_prefix by blast
qed

lemma py_split_first:
  assumes "sep \<noteq> []" "\<not> str_contains sep (pre @ butlast sep)"
  shows "py_split sep acc (pre @ sep @ post) = (rev acc @ pre) # py_split sep [] post"
  using assms(2)
proof (induction pre arbitrary: acc)
  case Nil
  from assms(1) obtain c cs where sep: "sep = c # cs" by (cases sep) auto
  have "py_split sep acc (sep @ post) = rev acc # py_split sep [] (drop (length sep) (sep @ post))"
    unfolding sep by simp
  then show ?case by simp
next
  case (Cons x pre)
  have np: "\<not> prefix sep (x # pre @ sep @ post)"
    using Cons.prems prefix_before_occurrence [OF assms(1)] by auto
  have rest: "\<not> str_contains sep (pre @ butlast sep)" using Cons.prems by simp
  have "py_split sep acc ((x # pre) @ sep @ post) = py_split sep (x # acc) (pre @ sep @ post)"
    using np by simp
  also have "\<dots> = (rev (x # acc) @ pre) # py_split sep [] post"
    using rest by (rule Cons.IH)
  finally show ?case by simp
qed

lemma first_occurrence_exists:
  assumes "sep \<noteq> []"
  shows "str_contains sep s \<Longrightarrow>
    \<exists>pre post. s = pre @ sep @ post \<and> \<not> str_contains sep (pre @ butlast sep)"
proof (induction s)
  case Nil
  then show ?case using assms by simp
next
  case (Cons c cs)
  show ?case
  proof (cases "prefix sep (c # cs)")
    case True
    then obtain post where "c # cs = [] @ sep @ post" by (auto simp: prefix_def)
    moreover have "\<not> str_contains sep ([] @ butlast sep)"
      using assms str_contains_length [of sep "butlast sep"] by (cases sep) auto
    ultimately show ?thesis by blast
  next
    case False
    with Cons.prems have "str_contains sep cs" by simp
    with Cons.IH obtain pre post where
      eq: "cs = pre @ sep @ post" and no: "\<not> str_contains sep (pre @ butlast sep)" by blast
    have "\<not> prefix sep (c # pre @ butlast sep)"
    proof
      assume p: "prefix sep (c # pre @ butlast sep)"
      have "sep = butlast sep @ [last sep]" using assms by simp
      then have "c # cs = (c # pre @ butlast sep) @ (last sep # post)"
        using eq by (metis append.assoc append_Cons append_Nil)
      then have "prefix (c # pre @ butlast sep) (c # cs)" by (metis prefixI)
      with p have "prefix sep (c # cs)" by (rule prefix_order.trans)
      with False show False by simp
    qed
    with no have "\<not> str_contains sep ((c # pre) @ butlast sep)" by simp
    moreover have "c # cs = (c # pre) @ sep @ post" using eq by simp
    ultimately show ?thesis by blast
  qed
qed

lemma subject_candidate_find:
  "subject_candidate col ms =
     (case List.find (\<lambda>a. str_contains a (upper col)) ms of
        None \<Rightarrow> None
      | Some m \<Rightarrow> (case str_split (upper col) m of
                     [] \<Rightarrow> None
                   | p # _ \<Rightarrow> if strip p \<noteq> [] then Some (strip p) else None))"
  by (induction ms) (auto simp: Let_def split: list.splits)

lemma collect_subjects_set:
  "collect_subjects cols S = S \<union> set (List.map_filter subject_of cols)"
proof (induction cols arbitrary: S)
  case Nil
  then show ?case by simp
next
  case (Cons c cols)
  show ?case
    by (cases "subject_candidate c assessments")
       (auto simp: Cons.IH subject_of_def)
qed

lemma get_subject_list_eq:
  "get_subject_list df =
     sorted_list_of_set (set (List.map_filter subject_of
        (filter (\<lambda>col. col \<notin> set exclude_cols) (columns df))))"
  by (simp add: get_subject_list_def collect_subjects_set Let_def)

lemma set_map_filter: "set (List.map_filter f xs) = {y. \<exists>x \<in> set xs. f x = Some y}"
  by (induction xs) (auto split: option.splits)

lemma assessments_nonempty: "m \<in> set assessments \<Longrightarrow> m \<noteq> []"
  by (auto simp: assessments_def)


lemma find_marker_props:
  "List.find (\<lambda>a. str_contains a u) assessments = Some m \<Longrightarrow> m \<noteq> [] \<and> str_contains m u"
  by (auto simp: find_Some_iff assessments_nonempty)

text \<open>
  Claim C2, as amended. For every header, \<open>get_subject_list\<close> uppercases it and tests
  the markers in the fixed order \<open>ISE\<close>, \<open>MSE\<close>, \<open>ESE\<close>, \<open>PRACTICAL\<close>, \<open>TW\<close>, \<open>PR\<close>.
  When none occurs there is no candidate. Otherwise the first marker \<open>m\<close> of that
  order that occurs has a first occurrence in the uppercased header, and the text
  \<open>pre\<close> before that occurrence, stripped of white space, is the candidate when it is
  not empty; an empty one gives no candidate.
\<close>

theorem subject_candidate_first_marker:
  "assessments = [''ISE'', ''MSE'', ''ESE'', ''PRACTICAL'', ''TW'', ''PR'']
   \<and> (List.find (\<lambda>a. str_contains a (upper col)) assessments = None
        \<longrightarrow> subject_candidate col assessments = None)
   \<and> (List.find (\<lambda>a. str_contains a (upper col)) assessments = Some m
        \<longrightarrow> (\<exists>pre post. upper col = pre @ m @ post \<and> \<not> str_contains m (pre @ butlast m)))
   \<and> (List.find (\<lambda>a. str_contains a (upper col)) assessments = Some m
        \<and> upper col = pre @ m @ post \<and> \<not> str_contains m (pre @ butlast m)
        \<longrightarrow> subject_candidate col assessments = (if strip pre = [] then None else Some (strip pre)))"
proof (intro conjI impI)
  show "assessments = [''ISE'', ''MSE'', ''ESE'', ''PRACTICAL'', ''TW'', ''PR'']"
    by (simp add: assessments_def)
  show "subject_candidate col assessments = None"
    if "List.find (\<lambda>a. str_contains a (upper col)) assessments = None"
    using that by (simp add: subject_candidate_find)
  show "\<exists>pre post. upper col = pre @ m @ post \<and> \<not> str_contains m (pre @ butlast m)"
    if "List.find (\<lambda>a. str_contains a (upper col)) assessments = Some m"
    using find_marker_props [OF that] first_occurrence_exists by blast
  show "subject_candidate col assessments = (if strip pre = [] then None else Some (strip pre))"
    if h: "List.find (\<lambda>a. str_contains a (upper col)) assessments = Some m
        \<and> upper col = pre @ m @ post \<and> \<not> str_contains m (pre @ butlast m)"
  proof -
    from h have f: "List.find (\<lambda>a. str_contains a (upper col)) assessments = Some m"
      and eq: "upper col = pre @ m @ post" and no: "\<not> str_contains m (pre @ butlast m)"
      by blast+
    from find_marker_props [OF f] have "m \<noteq> []" by blast
    then have "py_split m [] (pre @ m @ post) = (rev [] @ pre) # py_split m [] post"
      using no by (rule py_split_first)
    then have "str_split (upper col) m = pre # py_split m [] post"
      by (simp add: str_split_def eq)
    then show ?thesis by (simp add: subject_candidate_find f)
  qed
qed

theorem subject_candidate_first_marker_witness:
  "List.find (\<lambda>a. str_contains a (upper ''Maths mse'')) assessments = Some ''MSE''
   \<and> upper ''Maths mse'' = ''MATHS '' @ ''MSE'' @ []
   \<and> \<not> str_contains ''MSE'' (''MATHS '' @ butlast ''MSE'')
   \<and> subject_candidate ''Maths mse'' assessments = Some ''MATHS''
   \<and> List.find (\<lambda>a. str_contains a (upper ''Roll No'')) assessments = None
   \<and> subject_candidate ''Roll No'' assessments = None"
proof -
  have a: "List.find (\<lambda>a. str_contains a (upper ''Maths mse'')) assessments = Some ''MSE''
   \<and> upper ''Maths mse'' = ''MATHS '' @ ''MSE'' @ []
   \<and> \<not> str_contains ''MSE'' (''MATHS '' @ butlast ''MSE'')"
    by code_simp
  have b: "List.find (\<lambda>a. str_contains a (upper ''Roll No'')) assessments = None"
    by code_simp
  have c: "strip ''MATHS '' = ''MATHS''" by code_simp
  from a subject_candidate_first_marker [of "''Maths mse''" "''MSE''" "''MATHS ''" "[]"]
  have "subject_candidate ''Maths mse'' assessments
        = (if strip ''MATHS '' = [] then None else Some (strip ''MATHS ''))"
    by blast
  then have "subject_candidate ''Maths mse'' assessments = Some ''MATHS''"
    unfolding c by simp
  moreover from b subject_candidate_first_marker [of "''Roll No''"]
  have "subject_candidate ''Roll No'' assessments = None" by blast
  ultimately show ?thesis using a b by blast
qed

text \<open>
  Claim C2 as stated fails on the header \<open>CHINESE ISE\<close>, in which both \<open>ISE\<close> and
  \<open>ESE\<close> occur: the source splits it on \<open>ISE\<close> and finds \<open>CHINESE\<close>, whereas a split
  on \<open>ESE\<close>, and the whole loop run in the order with \<open>ESE\<close> in front, give \<open>CHIN\<close>.
\<close>

theorem subject_candidate_order_counterexample:
  "str_contains ''ISE'' (upper ''CHINESE ISE'') \<and> str_contains ''ESE'' (upper ''CHINESE ISE'')
   \<and> subject_candidate ''CHINESE ISE'' assessments = Some ''CHINESE''
   \<and> strip (hd (str_split (upper ''CHINESE ISE'') ''ESE'')) = ''CHIN''
   \<and> subject_candidate ''CHINESE ISE'' ese_first_order = Some ''CHIN''"
  by code_simp

section \<open>The list of subjects\<close>

lemma subjects_of_columns_set:
  "set (List.map_filter subject_of (filter (\<lambda>col. col \<notin> set exclude_cols) cols))
   = {n. \<exists>col \<in> set cols. col \<notin> set exclude_cols \<and> subject_of col = Some n}"
  by (auto simp: set_map_filter)

lemma get_subject_list_set:
  "set (get_subject_list df)
   = {n. \<exists>col \<in> set (columns df). col \<notin> set exclude_cols \<and> subject_of col = Some n}"
  unfolding get_subject_list_eq subjects_of_columns_set [symmetric] by simp

lemma get_subject_list_cong:
  assumes "set (columns df') = set (columns df)"
  shows "get_subject_list df' = get_subject_list df"
proof -
  have "set (List.map_filter subject_of (filter (\<lambda>col. col \<notin> set exclude_cols) (columns df')))
      = set (List.map_filter subject_of (filter (\<lambda>col. col \<notin> set exclude_cols) (columns df)))"
    unfolding subjects_of_columns_set assms ..
  then show ?thesis by (simp only: get_subject_list_eq)
qed

lemma scenario_subject_list: "get_subject_list scenario_table = [''Dbms'', ''Maths'']"
  by code_simp

text \<open>
  Claim C9. \<open>get_subject_list\<close> is a function of the table's headers alone, so two
  runs on the same table give the same list. For every table the list is sorted in
  the lexicographic order of strings (characters compared by code) and has no
  duplicates, and a table whose headers are a permutation of the headers of \<open>df\<close>
  yields the same list, hence the same set of subjects.
\<close>

theorem get_subject_list_sorted_unique:
  "sorted (get_subject_list df) \<and> distinct (get_subject_list df)
   \<and> (columns df' = columns df \<longrightarrow> get_subject_list df' = get_subject_list df)
   \<and> (mset (columns df') = mset (columns df) \<longrightarrow>
         get_subject_list df' = get_subject_list df
         \<and> set (get_subject_list df') = set (get_subject_list df))"
proof (intro conjI impI)
  show "sorted (get_subject_list df)" by (simp add: get_subject_list_eq)
  show "distinct (get_subject_list df)" by (simp add: get_subject_list_eq)
  show "get_subject_list df' = get_subject_list df" if "columns df' = columns df"
    using that by (intro get_subject_list_cong) simp
  show p: "get_subject_list df' = get_subject_list df" if "mset (columns df') = mset (columns df)"
    using that by (intro get_subject_list_cong) (rule mset_eq_setD)
  show "set (get_subject_list df') = set (get_subject_list df)"
    if "mset (columns df') = mset (columns df)"
    using p [OF that] by simp
qed

theorem get_subject_list_sorted_unique_witness:
  "mset (columns scenario_permuted) = mset (columns scenario_table)
   \<and> get_subject_list scenario_permuted = get_subject_list scenario_table
   \<and> get_subject_list scenario_table = [''Dbms'', ''Maths'']
   \<and> sorted [''Dbms'', ''Maths''] \<and> distinct [''Dbms'', ''Maths'']"
proof -
  have a: "mset (columns scenario_permuted) = mset (columns scenario_table)"
    by (simp add: scenario_permuted_def scenario_table_def scenario_columns_def)
  from a get_subject_list_sorted_unique [of scenario_table scenario_permuted]
  show ?thesis unfolding scenario_subject_list by blast
qed

text \<open>
  Claim C10. For every table the subjects returned are exactly those derived from
  headers that are not in the exclusion list: the list is the same as for the table
  with the excluded headers removed, an excluded header put anywhere among the
  columns changes nothing, and a table with excluded headers only has no subject.
  The header \<open>Coding_Expertise\<close> shows that the removal matters: uppercased it
  contains \<open>ISE\<close> and marker matching alone would derive the subject
  \<open>Coding Expert\<close> from it, yet the table with that single column has no subject.
\<close>

theorem excluded_columns_ignored:
  "set (get_subject_list df)
     = {n. \<exists>col \<in> set (columns df). col \<notin> set exclude_cols \<and> subject_of col = Some n}
   \<and> get_subject_list df
     = get_subject_list (df\<lparr>columns := filter (\<lambda>col. col \<notin> set exclude_cols) (columns df)\<rparr>)
   \<and> (c \<in> set exclude_cols \<longrightarrow>
        get_subject_list (df\<lparr>columns := xs @ c # ys\<rparr>) = get_subject_list (df\<lparr>columns := xs @ ys\<rparr>))
   \<and> (list_all (\<lambda>col. col \<in> set exclude_cols) (columns df) \<longrightarrow> get_subject_list df = [])
   \<and> exclude_cols = [''SR.No'', ''Roll No'', ''Name'', ''Academic_Performance_%'',
        ''Previous_Performance_Analysis'', ''Practical_%'', ''Coding_Expertise'',
        ''Performance_Analysis'', ''Category'']
   \<and> str_contains ''ISE'' (upper ''Coding_Expertise'')
   \<and> subject_of ''Coding_Expertise'' = Some ''Coding Expert''
   \<and> get_subject_list \<lparr>columns = [''Coding_Expertise''], iterrows = []\<rparr> = []"
proof (intro conjI impI)
  show "set (get_subject_list df)
     = {n. \<exists>col \<in> set (columns df). col \<notin> set exclude_cols \<and> subject_of col = Some n}"
    by (rule get_subject_list_set)
  show "get_subject_list df
     = get_subject_list (df\<lparr>columns := filter (\<lambda>col. col \<notin> set exclude_cols) (columns df)\<rparr>)"
    by (simp add: get_subject_list_eq)
  show "get_subject_list (df\<lparr>columns := xs @ c # ys\<rparr>) = get_subject_list (df\<lparr>columns := xs @ ys\<rparr>)"
    if "c \<in> set exclude_cols"
    using that by (simp add: get_subject_list_eq)
  show "get_subject_list df = []"
    if "list_all (\<lambda>col. col \<in> set exclude_cols) (columns df)"
  proof -
    from that have "filter (\<lambda>col. col \<notin> set exclude_cols) (columns df) = []"
      by (simp add: list_all_iff filter_empty_conv)
    then show ?thesis by (simp add: get_subject_list_eq)
  qed
  show "exclude_cols = [''SR.No'', ''Roll No'', ''Name'', ''Academic_Performance_%'',
        ''Previous_Performance_Analysis'', ''Practical_%'', ''Coding_Expertise'',
        ''Performance_Analysis'', ''Category'']"
    by (simp add: exclude_cols_def)
  show "str_contains ''ISE'' (upper ''Coding_Expertise'')" by code_simp
  show "subject_of ''Coding_Expertise'' = Some ''Coding Expert''" by code_simp
  show "get_subject_list \<lparr>columns = [''Coding_Expertise''], iterrows = []\<rparr> = []" by code_simp
qed

theorem excluded_columns_ignored_witness:
  "''Coding_Expertise'' \<in> set exclude_cols
   \<and> get_subject_list (scenario_table\<lparr>columns := [''SR.No'', ''Name''] @ ''Coding_Expertise''
          # [''MATHS MSE'', ''MATHS ESE'', ''DBMS PRACTICAL'']\<rparr>)
     = [''Dbms'', ''Maths'']
   \<and> list_all (\<lambda>col. col \<in> set exclude_cols) (columns \<lparr>columns = [''Category'', ''Practical_%''], iterrows = []\<rparr>)
   \<and> get_subject_list \<lparr>columns = [''Category'', ''Practical_%''], iterrows = []\<rparr> = []"
proof -
  have a: "''Coding_Expertise'' \<in> set exclude_cols" by (simp add: exclude_cols_def)
  have b: "list_all (\<lambda>col. col \<in> set exclude_cols)
             (columns \<lparr>columns = [''Category'', ''Practical_%''], iterrows = []\<rparr>)"
    by (simp add: exclude_cols_def)
  have c: "scenario_table\<lparr>columns := [''SR.No'', ''Name''] @ [''MATHS MSE'', ''MATHS ESE'', ''DBMS PRACTICAL'']\<rparr>
           = scenario_table"
    by (simp add: scenario_table_def scenario_columns_def)
  from a excluded_columns_ignored [of scenario_table "''Coding_Expertise''" "[''SR.No'', ''Name'']"
      "[''MATHS MSE'', ''MATHS ESE'', ''DBMS PRACTICAL'']"]
  have "get_subject_list (scenario_table\<lparr>columns := [''SR.No'', ''Name''] @ ''Coding_Expertise''
          # [''MATHS MSE'', ''MATHS ESE'', ''DBMS PRACTICAL'']\<rparr>)
     = get_subject_list (scenario_table\<lparr>columns := [''SR.No'', ''Name''] @ [''MATHS MSE'', ''MATHS ESE'', ''DBMS PRACTICAL'']\<rparr>)"
    by blast
  then have d: "get_subject_list (scenario_table\<lparr>columns := [''SR.No'', ''Name''] @ ''Coding_Expertise''
          # [''MATHS MSE'', ''MATHS ESE'', ''DBMS PRACTICAL'']\<rparr>) = [''Dbms'', ''Maths'']"
    unfolding c scenario_subject_list .
  from b excluded_columns_ignored [of "\<lparr>columns = [''Category'', ''Practical_%''], iterrows = []\<rparr>"]
  have e: "get_subject_list \<lparr>columns = [''Category'', ''Practical_%''], iterrows = []\<rparr> = []"
    by blast
  from a b d e show ?thesis by blast
qed

end
